theory Spec2Isabelle
  imports Main
begin

section \<open>Student course enrollment: the model of models.py and main.py\<close>

subsection \<open>Clock times\<close>

text \<open>
  The schedules hold \<^verbatim>\<open>datetime.time\<close> values. The driver builds naive times
  (no time zone), which Python compares as the tuples
  (hour, minute, second, microsecond), lexicographically.
\<close>

datatype time = Time (hour: nat) (minute: nat) (second: nat) (microsecond: nat)

fun time_lt :: "time \<Rightarrow> time \<Rightarrow> bool" where
  "time_lt (Time h1 m1 s1 u1) (Time h2 m2 s2 u2) =
     (h1 < h2 \<or> (h1 = h2 \<and> (m1 < m2 \<or> (m1 = m2 \<and> (s1 < s2 \<or> (s1 = s2 \<and> u1 < u2))))))"

definition time_le :: "time \<Rightarrow> time \<Rightarrow> bool" where
  "time_le a b = (time_lt a b \<or> a = b)"

definition time_ge :: "time \<Rightarrow> time \<Rightarrow> bool" where
  "time_ge a b = (time_lt b a \<or> a = b)"

subsection \<open>Schedule\<close>

text \<open>The field \<^verbatim>\<open>end\<close> of the source is \<open>end_time\<close> here: the source's name is reserved.\<close>

record schedule =
  day :: string
  start :: time
  end_time :: time

text \<open>
  \<^verbatim>\<open>
  def overlaps_with(self, other):
      if self.day != other.day:
          return False
      return not (self.end <= other.start or self.start >= other.end)
  \<close>
\<close>

definition schedule_overlaps_with :: "schedule \<Rightarrow> schedule \<Rightarrow> bool" where
  "schedule_overlaps_with self other =
     (if day self \<noteq> day other then False
      else \<not> (time_le (end_time self) (start other) \<or> time_ge (start self) (end_time other)))"

subsection \<open>Course\<close>

text \<open>
  A Course is an object: the program compares courses by identity (the class defines no
  \<^verbatim>\<open>__eq__\<close>, so \<^verbatim>\<open>==\<close> and \<^verbatim>\<open>in\<close> are reference comparisons). A course is therefore
  known by its reference, and the store gives the object a reference designates. A Python
  reference always designates an object, so the store is a total function.
\<close>

type_synonym cref = nat

record course =
  code :: string
  title :: string
  credits :: int
  semester :: int
  prerequisites :: "cref list"
  schedules :: "schedule list"

type_synonym store = "cref \<Rightarrow> course"

text \<open>Python's \<^verbatim>\<open>str\<close> of an integer, for the f-strings.\<close>

function str_nat :: "nat \<Rightarrow> string" where
  "str_nat n =
     (if n < 10 then [''0123456789'' ! n]
      else str_nat (n div 10) @ [''0123456789'' ! (n mod 10)])"
  by pat_completeness auto
termination
  by (relation "measure id") auto

definition str_int :: "int \<Rightarrow> string" where
  "str_int i = (if i < 0 then ''-'' @ str_nat (nat (- i)) else str_nat (nat i))"

text \<open>
  \<^verbatim>\<open>
  def __str__(self):
      return f"{self.code} - {self.name} ({self.credits} credits)"
  \<close>
  (the field \<^verbatim>\<open>name\<close> of a Course is \<open>title\<close> here, the Student's keeps the name \<open>name\<close>.)
\<close>

definition course_str :: "course \<Rightarrow> string" where
  "course_str c = code c @ '' - '' @ title c @ '' ('' @ str_int (credits c) @ '' credits)''"

subsection \<open>Enrollment\<close>

datatype enrollment = Enrollment (course: cref)

text \<open>
  \<^verbatim>\<open>
  def overlaps_with(self, other_enrollment):
      for s1 in self.course.schedules:
          for s2 in other_enrollment.course.schedules:
              if s1.overlaps_with(s2):
                  return True
      return False
  \<close>
  The inner loop and the outer loop, each leaving at the first overlapping pair.
\<close>

primrec overlaps_inner :: "schedule \<Rightarrow> schedule list \<Rightarrow> bool" where
  "overlaps_inner s1 [] = False"
| "overlaps_inner s1 (s2 # rest) =
     (if schedule_overlaps_with s1 s2 then True else overlaps_inner s1 rest)"

primrec overlaps_outer :: "schedule list \<Rightarrow> schedule list \<Rightarrow> bool" where
  "overlaps_outer [] others = False"
| "overlaps_outer (s1 # rest) others =
     (if overlaps_inner s1 others then True else overlaps_outer rest others)"

definition enrollment_overlaps_with :: "store \<Rightarrow> enrollment \<Rightarrow> enrollment \<Rightarrow> bool" where
  "enrollment_overlaps_with cs self other_enrollment =
     overlaps_outer (schedules (cs (course self))) (schedules (cs (course other_enrollment)))"

subsection \<open>Student\<close>

record student =
  name :: string
  approved_courses :: "cref list"
  enrollments :: "enrollment list"

text \<open>The constructor: both lists start empty.\<close>

definition Student :: "string \<Rightarrow> student" where
  "Student n = \<lparr>name = n, approved_courses = [], enrollments = []\<rparr>"

text \<open>
  \<^verbatim>\<open>
  def total_credits(self):
      return sum(enrollment.course.credits for enrollment in self.enrollments)
  \<close>
\<close>

definition total_credits :: "store \<Rightarrow> student \<Rightarrow> int" where
  "total_credits cs self = sum_list (map (\<lambda>enrollment. credits (cs (course enrollment))) (enrollments self))"

text \<open>Python's \<^verbatim>\<open>any\<close> over the values a generator yields.\<close>

primrec py_any :: "bool list \<Rightarrow> bool" where
  "py_any [] = False"
| "py_any (b # bs) = (if b then True else py_any bs)"

text \<open>
  The prerequisite loop of \<^verbatim>\<open>can_enroll_in\<close>: the first prerequisite, in listed order,
  that is not in the approved list, if there is one.
\<close>

primrec missing_prerequisite :: "cref list \<Rightarrow> cref list \<Rightarrow> cref option" where
  "missing_prerequisite approved [] = None"
| "missing_prerequisite approved (prereq # rest) =
     (if prereq \<notin> set approved then Some prereq else missing_prerequisite approved rest)"

text \<open>The overlap loop of \<^verbatim>\<open>can_enroll_in\<close>, over the active enrollments in their order.\<close>

primrec schedule_conflict :: "store \<Rightarrow> enrollment \<Rightarrow> enrollment list \<Rightarrow> bool" where
  "schedule_conflict cs new_enrollment [] = False"
| "schedule_conflict cs new_enrollment (enrollment # rest) =
     (if enrollment_overlaps_with cs new_enrollment enrollment then True
      else schedule_conflict cs new_enrollment rest)"

text \<open>
  \<^verbatim>\<open>
  def can_enroll_in(self, course):
      if any(enrollment.course == course for enrollment in self.enrollments):
          return False, "You are already enrolled in this course."
      for prereq in course.prerequisites:
          if prereq not in self.approved_courses:
              return False, f"Missing prerequisite: {prereq.code}"
      if self.total_credits() + course.credits > 24:
          return False, "Exceeds credit limit."
      new_enrollment = Enrollment(course)
      for enrollment in self.enrollments:
          if new_enrollment.overlaps_with(enrollment):
              return False, "Schedule conflict with another course."
      return True, "Enrollment valid."
  \<close>
\<close>

definition can_enroll_in :: "store \<Rightarrow> student \<Rightarrow> cref \<Rightarrow> bool \<times> string" where
  "can_enroll_in cs self c =
     (if py_any (map (\<lambda>enrollment. course enrollment = c) (enrollments self))
      then (False, ''You are already enrolled in this course.'')
      else case missing_prerequisite (approved_courses self) (prerequisites (cs c)) of
        Some prereq \<Rightarrow> (False, ''Missing prerequisite: '' @ code (cs prereq))
      | None \<Rightarrow>
          if total_credits cs self + credits (cs c) > 24
          then (False, ''Exceeds credit limit.'')
          else if schedule_conflict cs (Enrollment c) (enrollments self)
          then (False, ''Schedule conflict with another course.'')
          else (True, ''Enrollment valid.''))"

subsection \<open>The mutating operations\<close>

text \<open>
  What a call can change: the Course objects, the Student the method is called on, and the
  lines printed so far. The marks printed in front of a line are the UTF-8 bytes of
  U+2705 and U+274C.
\<close>

record world =
  courses :: store
  self :: student
  stdout :: "string list"

definition check_mark :: string where
  "check_mark = [CHR 0xE2, CHR 0x9C, CHR 0x85]"

definition cross_mark :: string where
  "cross_mark = [CHR 0xE2, CHR 0x9D, CHR 0x8C]"

text \<open>
  \<^verbatim>\<open>
  def enroll_in(self, course):
      can_enroll, message = self.can_enroll_in(course)
      if can_enroll:
          self.enrollments.append(Enrollment(course))
          print(f"(check) {self.name} enrolled in: {course}")
      else:
          print(f"(cross) Could not enroll in {course}: {message}")
  \<close>
\<close>

definition enroll_in :: "world \<Rightarrow> cref \<Rightarrow> world" where
  "enroll_in w c =
     (case can_enroll_in (courses w) (self w) c of (can_enroll, message) \<Rightarrow>
        if can_enroll
        then w\<lparr>self := (self w)\<lparr>enrollments := enrollments (self w) @ [Enrollment c]\<rparr>,
               stdout := stdout w @
                 [check_mark @ '' '' @ name (self w) @ '' enrolled in: '' @ course_str (courses w c)]\<rparr>
        else w\<lparr>stdout := stdout w @
                 [cross_mark @ '' Could not enroll in '' @ course_str (courses w c) @ '': '' @ message]\<rparr>)"

text \<open>
  \<^verbatim>\<open>
  def pass_course(self, course):
      if course not in self.approved_courses:
          self.approved_courses.append(course)
  \<close>
\<close>

definition pass_course :: "world \<Rightarrow> cref \<Rightarrow> world" where
  "pass_course w c =
     (if c \<notin> set (approved_courses (self w))
      then w\<lparr>self := (self w)\<lparr>approved_courses := approved_courses (self w) @ [c]\<rparr>\<rparr>
      else w)"

text \<open>A sequence of calls on one student, run from left to right.\<close>

datatype call = Enroll_in cref | Pass_course cref

fun do_call :: "world \<Rightarrow> call \<Rightarrow> world" where
  "do_call w (Enroll_in c) = enroll_in w c"
| "do_call w (Pass_course c) = pass_course w c"

fun run :: "world \<Rightarrow> call list \<Rightarrow> world" where
  "run w [] = w"
| "run w (k # ks) = run (do_call w k) ks"

text \<open>
  The courses of the \<open>enroll_in\<close> calls of a sequence that passed \<open>can_enroll_in\<close> at the
  moment of the call, in call order.
\<close>

fun successful_enrolls :: "world \<Rightarrow> call list \<Rightarrow> cref list" where
  "successful_enrolls w [] = []"
| "successful_enrolls w (Enroll_in c # ks) =
     (if fst (can_enroll_in (courses w) (self w) c)
      then c # successful_enrolls (enroll_in w c) ks
      else successful_enrolls (enroll_in w c) ks)"
| "successful_enrolls w (Pass_course c # ks) = successful_enrolls (pass_course w c) ks"

subsection \<open>The driver, main.py\<close>

text \<open>
  The three Course objects the driver builds, at the references 0, 1 and 2. The driver
  creates no other Course, so no other reference is ever looked up; the store gives
  them a course with empty fields.
\<close>

definition prog1 :: course where
  "prog1 = \<lparr>code = ''INF101'', title = ''Programming I'', credits = 4, semester = 1,
     prerequisites = [],
     schedules = [\<lparr>day = ''Monday'', start = Time 8 0 0 0, end_time = Time 10 0 0 0\<rparr>]\<rparr>"

definition prog2 :: course where
  "prog2 = \<lparr>code = ''INF201'', title = ''Programming II'', credits = 4, semester = 2,
     prerequisites = [0],
     schedules = [\<lparr>day = ''Tuesday'', start = Time 10 0 0 0, end_time = Time 12 0 0 0\<rparr>]\<rparr>"

definition mat1 :: course where
  "mat1 = \<lparr>code = ''MAT101'', title = ''Mathematics I'', credits = 6, semester = 1,
     prerequisites = [],
     schedules = [\<lparr>day = ''Monday'', start = Time 9 30 0 0, end_time = Time 11 30 0 0\<rparr>]\<rparr>"

definition no_course :: course where
  "no_course = \<lparr>code = [], title = [], credits = 0, semester = 0,
     prerequisites = [], schedules = []\<rparr>"

definition main_courses :: store where
  "main_courses r =
     (if r = 0 then prog1 else if r = 1 then prog2 else if r = 2 then mat1 else no_course)"

definition main_start :: world where
  "main_start = \<lparr>courses = main_courses, self = Student ''John Doe'', stdout = []\<rparr>"

text \<open>
  \<^verbatim>\<open>
  student.enroll_in(prog1)
  student.enroll_in(prog2)
  student.enroll_in(mat1)
  student.pass_course(prog1)
  student.enroll_in(mat1)
  \<close>
\<close>

definition main_calls :: "call list" where
  "main_calls = [Enroll_in 0, Enroll_in 1, Enroll_in 2, Pass_course 0, Enroll_in 2]"

subsection \<open>Example data\<close>

text \<open>
  Three slots, two further courses beside the driver's and four student states, on which
  the theorems below are instantiated: a 30 credit course with three prerequisites on
  Monday morning, and a 20 credit course with no prerequisite and no slot.
\<close>

definition monday_8_10 :: schedule where
  "monday_8_10 = \<lparr>day = ''Monday'', start = Time 8 0 0 0, end_time = Time 10 0 0 0\<rparr>"

definition monday_10_12 :: schedule where
  "monday_10_12 = \<lparr>day = ''Monday'', start = Time 10 0 0 0, end_time = Time 12 0 0 0\<rparr>"

definition tuesday_9_11 :: schedule where
  "tuesday_9_11 = \<lparr>day = ''Tuesday'', start = Time 9 0 0 0, end_time = Time 11 0 0 0\<rparr>"

definition capstone :: course where
  "capstone = \<lparr>code = ''INF900'', title = ''Capstone'', credits = 30, semester = 9,
     prerequisites = [0, 1, 2], schedules = [monday_8_10]\<rparr>"

definition seminar :: course where
  "seminar = \<lparr>code = ''SEM500'', title = ''Seminar'', credits = 20, semester = 5,
     prerequisites = [], schedules = []\<rparr>"

definition example_courses :: store where
  "example_courses r =
     (if r = 3 then capstone else if r = 4 then seminar else main_courses r)"

definition student_in_prog1 :: student where
  "student_in_prog1 = \<lparr>name = ''Ann'', approved_courses = [0], enrollments = [Enrollment 0]\<rparr>"

definition student_in_seminar :: student where
  "student_in_seminar = \<lparr>name = ''Bob'', approved_courses = [], enrollments = [Enrollment 4]\<rparr>"

definition student_in_capstone :: student where
  "student_in_capstone = \<lparr>name = ''Cy'', approved_courses = [], enrollments = [Enrollment 3]\<rparr>"

definition student_passed_all :: student where
  "student_passed_all =
     \<lparr>name = ''Dee'', approved_courses = [0, 1, 2], enrollments = [Enrollment 0]\<rparr>"

text \<open>The definitions of the example data.\<close>

lemmas example_defs = example_courses_def capstone_def seminar_def monday_8_10_def monday_10_12_def
  tuesday_9_11_def student_in_prog1_def student_in_seminar_def student_in_capstone_def
  student_passed_all_def

text \<open>The definitions that evaluating the driver's run unfolds.\<close>

lemmas main_defs = main_calls_def main_start_def main_courses_def prog1_def prog2_def mat1_def Student_def
  enroll_in_def pass_course_def can_enroll_in_def total_credits_def enrollment_overlaps_with_def
  schedule_overlaps_with_def time_le_def time_ge_def course_str_def str_int_def

section \<open>Schedule overlap\<close>

lemma time_ge_le: "time_ge a b = time_le b a"
  by (auto simp: time_ge_def time_le_def)

lemma time_le_refl: "time_le a a"
  by (simp add: time_le_def)

text \<open>
  Claim C4. For every pair of schedule slots, \<open>overlaps_with\<close> is false whenever the day
  labels differ, whatever the times; when the days are equal it is true if and only if
  NOT (self.end <= other.start OR self.start >= other.end); in particular same-day slots
  where one ends exactly when the other starts do not overlap.
\<close>

theorem overlaps_with_spec:
  "(day a \<noteq> day b \<longrightarrow> \<not> schedule_overlaps_with a b) \<and>
   (day a = day b \<longrightarrow>
      schedule_overlaps_with a b =
        (\<not> (time_le (end_time a) (start b) \<or> time_ge (start a) (end_time b)))) \<and>
   (day a = day b \<and> end_time a = start b \<longrightarrow> \<not> schedule_overlaps_with a b)"
  by (simp add: schedule_overlaps_with_def time_le_refl)

theorem overlaps_with_spec_witness:
  "day monday_8_10 \<noteq> day tuesday_9_11 \<and> \<not> schedule_overlaps_with monday_8_10 tuesday_9_11 \<and>
   day monday_8_10 = day monday_10_12 \<and> end_time monday_8_10 = start monday_10_12 \<and>
   \<not> schedule_overlaps_with monday_8_10 monday_10_12"
  using overlaps_with_spec [of monday_8_10 tuesday_9_11] overlaps_with_spec [of monday_8_10 monday_10_12]
  by (simp add: example_defs time_le_def)

text \<open>
  Claim C9. Schedule slot overlap is symmetric: for every pair of slots, on any days and
  at any times, \<open>a.overlaps_with(b) = b.overlaps_with(a)\<close>.
\<close>

theorem overlaps_with_symmetric:
  "schedule_overlaps_with a b = schedule_overlaps_with b a"
  by (auto simp: schedule_overlaps_with_def time_ge_le)

section \<open>Enrollment overlap\<close>

lemma overlaps_inner_iff:
  "overlaps_inner s1 others = (\<exists>s2 \<in> set others. schedule_overlaps_with s1 s2)"
  by (induction others) auto

lemma overlaps_outer_iff:
  "overlaps_outer mine others =
     (\<exists>s1 \<in> set mine. \<exists>s2 \<in> set others. schedule_overlaps_with s1 s2)"
  by (induction mine) (auto simp: overlaps_inner_iff)

text \<open>
  Claim C6. For every pair of enrollments, \<open>Enrollment.overlaps_with\<close> is true if and only
  if some schedule slot of this enrollment's course overlaps some schedule slot of the
  other enrollment's course; so an enrollment whose course has no slot overlaps with no
  enrollment, in either argument position.
\<close>

theorem enrollment_overlaps_with_iff:
  "enrollment_overlaps_with cs e1 e2 =
     (\<exists>s1 \<in> set (schedules (cs (course e1))). \<exists>s2 \<in> set (schedules (cs (course e2))).
        schedule_overlaps_with s1 s2) \<and>
   (schedules (cs (course e1)) = [] \<longrightarrow>
      \<not> enrollment_overlaps_with cs e1 e2 \<and> \<not> enrollment_overlaps_with cs e2 e1)"
  by (auto simp: enrollment_overlaps_with_def overlaps_outer_iff)

theorem enrollment_overlaps_with_iff_witness:
  "enrollment_overlaps_with example_courses (Enrollment 2) (Enrollment 0) \<and>
   (\<exists>s1 \<in> set (schedules (example_courses 2)). \<exists>s2 \<in> set (schedules (example_courses 0)).
        schedule_overlaps_with s1 s2) \<and>
   schedules (example_courses 4) = [] \<and>
   \<not> enrollment_overlaps_with example_courses (Enrollment 4) (Enrollment 0) \<and>
   \<not> enrollment_overlaps_with example_courses (Enrollment 0) (Enrollment 4)"
  using enrollment_overlaps_with_iff [of example_courses "Enrollment 2" "Enrollment 0"]
    enrollment_overlaps_with_iff [of example_courses "Enrollment 4" "Enrollment 0"]
  by (simp add: example_defs main_courses_def prog1_def mat1_def
      schedule_overlaps_with_def time_le_def time_ge_def)

section \<open>The effect of the two operations\<close>

lemma enroll_in_courses: "courses (enroll_in w c) = courses w"
  by (simp add: enroll_in_def split: prod.splits)

lemma pass_course_courses: "courses (pass_course w c) = courses w"
  by (simp add: pass_course_def)

lemma pass_course_enrollments: "enrollments (self (pass_course w c)) = enrollments (self w)"
  by (simp add: pass_course_def)

lemma enroll_in_rejected:
  "\<not> fst (can_enroll_in (courses w) (self w) c) \<Longrightarrow> self (enroll_in w c) = self w"
  by (cases "can_enroll_in (courses w) (self w) c") (simp add: enroll_in_def)

lemma enroll_in_accepted:
  "fst (can_enroll_in (courses w) (self w) c) \<Longrightarrow>
     self (enroll_in w c) = (self w)\<lparr>enrollments := enrollments (self w) @ [Enrollment c]\<rparr>"
  by (cases "can_enroll_in (courses w) (self w) c") (simp add: enroll_in_def)

lemma can_enroll_in_credits:
  "fst (can_enroll_in cs s c) \<Longrightarrow> total_credits cs s + credits (cs c) \<le> 24"
  by (simp add: can_enroll_in_def split: if_splits option.splits)

lemma enroll_in_accepted_total:
  assumes "fst (can_enroll_in (courses w) (self w) c)"
  shows "total_credits (courses (enroll_in w c)) (self (enroll_in w c)) \<le> 24"
  using can_enroll_in_credits[OF assms]
  by (simp add: enroll_in_accepted[OF assms] enroll_in_courses total_credits_def)

lemma do_call_bound:
  assumes "total_credits (courses w) (self w) \<le> 24"
  shows "total_credits (courses (do_call w k)) (self (do_call w k)) \<le> 24"
proof (cases k)
  case (Enroll_in c)
  show ?thesis
  proof (cases "fst (can_enroll_in (courses w) (self w) c)")
    case True
    then show ?thesis using Enroll_in by (simp add: enroll_in_accepted_total)
  next
    case False
    then show ?thesis using Enroll_in assms
      by (simp add: enroll_in_rejected enroll_in_courses)
  qed
next
  case (Pass_course c)
  then show ?thesis using assms
    by (simp add: total_credits_def pass_course_courses pass_course_enrollments)
qed

lemma run_bound:
  "total_credits (courses w) (self w) \<le> 24 \<Longrightarrow>
     total_credits (courses (run w ks)) (self (run w ks)) \<le> 24"
  by (induction ks arbitrary: w) (simp_all add: do_call_bound)

section \<open>The eligibility rules\<close>

lemma py_any_course: "py_any (map (\<lambda>enrollment. course enrollment = c) es) = (c \<in> course ` set es)"
  by (induction es) auto

lemma missing_prerequisite_None:
  "(missing_prerequisite approved ps = None) = (set ps \<subseteq> set approved)"
  by (induction ps) auto

lemma missing_prerequisite_first:
  "set pre \<subseteq> set approved \<Longrightarrow> p \<notin> set approved \<Longrightarrow>
     missing_prerequisite approved (pre @ p # post) = Some p"
  by (induction pre) auto

lemma missing_prerequisite_Some:
  "missing_prerequisite approved ps = Some p \<Longrightarrow> p \<in> set ps \<and> p \<notin> set approved"
  by (induction ps) (auto split: if_splits)

lemma schedule_conflict_iff:
  "schedule_conflict cs new es = (\<exists>e \<in> set es. enrollment_overlaps_with cs new e)"
  by (induction es) auto

text \<open>
  Claim C3. \<open>can_enroll_in\<close> evaluates its four rules in the order already-enrolled,
  prerequisites, credit limit, schedule overlap, and stops at the first that fails: if the
  course is (by reference) the course of some active enrollment, the result is the
  already-enrolled failure, whatever else fails; otherwise, if some prerequisite is not
  (by reference) in \<open>approved_courses\<close>, the result names the code of the first such
  prerequisite in listed order, even when several are missing; otherwise, if the credits
  would exceed 24, the result is the credit-limit failure, whether or not a slot overlaps;
  otherwise, if the course overlaps some active enrollment, the result is the
  schedule-conflict failure; and only when all four rules pass is the result the success.
\<close>

theorem can_enroll_in_rule_order:
  "(c \<in> course ` set (enrollments s) \<longrightarrow>
      can_enroll_in cs s c = (False, ''You are already enrolled in this course.'')) \<and>
   (c \<notin> course ` set (enrollments s) \<and> prerequisites (cs c) = pre @ p # post \<and>
    set pre \<subseteq> set (approved_courses s) \<and> p \<notin> set (approved_courses s) \<longrightarrow>
      can_enroll_in cs s c = (False, ''Missing prerequisite: '' @ code (cs p))) \<and>
   (c \<notin> course ` set (enrollments s) \<and> \<not> set (prerequisites (cs c)) \<subseteq> set (approved_courses s) \<longrightarrow>
      (\<exists>q. q \<in> set (prerequisites (cs c)) \<and> q \<notin> set (approved_courses s) \<and>
         can_enroll_in cs s c = (False, ''Missing prerequisite: '' @ code (cs q)))) \<and>
   (c \<notin> course ` set (enrollments s) \<and> set (prerequisites (cs c)) \<subseteq> set (approved_courses s) \<and>
    total_credits cs s + credits (cs c) > 24 \<longrightarrow>
      can_enroll_in cs s c = (False, ''Exceeds credit limit.'')) \<and>
   (c \<notin> course ` set (enrollments s) \<and> set (prerequisites (cs c)) \<subseteq> set (approved_courses s) \<and>
    total_credits cs s + credits (cs c) \<le> 24 \<and>
    (\<exists>e \<in> set (enrollments s). enrollment_overlaps_with cs (Enrollment c) e) \<longrightarrow>
      can_enroll_in cs s c = (False, ''Schedule conflict with another course.'')) \<and>
   (c \<notin> course ` set (enrollments s) \<and> set (prerequisites (cs c)) \<subseteq> set (approved_courses s) \<and>
    total_credits cs s + credits (cs c) \<le> 24 \<and>
    \<not> (\<exists>e \<in> set (enrollments s). enrollment_overlaps_with cs (Enrollment c) e) \<longrightarrow>
      can_enroll_in cs s c = (True, ''Enrollment valid.''))"
proof (intro conjI impI)
  assume "c \<in> course ` set (enrollments s)"
  then show "can_enroll_in cs s c = (False, ''You are already enrolled in this course.'')"
    by (simp add: can_enroll_in_def py_any_course)
next
  assume a: "c \<notin> course ` set (enrollments s) \<and> prerequisites (cs c) = pre @ p # post \<and>
    set pre \<subseteq> set (approved_courses s) \<and> p \<notin> set (approved_courses s)"
  then have "missing_prerequisite (approved_courses s) (prerequisites (cs c)) = Some p"
    by (simp add: missing_prerequisite_first)
  with a show "can_enroll_in cs s c = (False, ''Missing prerequisite: '' @ code (cs p))"
    by (simp add: can_enroll_in_def py_any_course)
next
  assume a: "c \<notin> course ` set (enrollments s) \<and> \<not> set (prerequisites (cs c)) \<subseteq> set (approved_courses s)"
  then obtain q where q: "missing_prerequisite (approved_courses s) (prerequisites (cs c)) = Some q"
    using missing_prerequisite_None [of "approved_courses s" "prerequisites (cs c)"] by auto
  with a have "can_enroll_in cs s c = (False, ''Missing prerequisite: '' @ code (cs q))"
    by (simp add: can_enroll_in_def py_any_course)
  with missing_prerequisite_Some [OF q]
  show "\<exists>q. q \<in> set (prerequisites (cs c)) \<and> q \<notin> set (approved_courses s) \<and>
         can_enroll_in cs s c = (False, ''Missing prerequisite: '' @ code (cs q))"
    by blast
next
  assume "c \<notin> course ` set (enrollments s) \<and> set (prerequisites (cs c)) \<subseteq> set (approved_courses s) \<and>
    total_credits cs s + credits (cs c) > 24"
  then show "can_enroll_in cs s c = (False, ''Exceeds credit limit.'')"
    by (simp add: can_enroll_in_def py_any_course missing_prerequisite_None [THEN iffD2])
next
  assume "c \<notin> course ` set (enrollments s) \<and> set (prerequisites (cs c)) \<subseteq> set (approved_courses s) \<and>
    total_credits cs s + credits (cs c) \<le> 24 \<and>
    (\<exists>e \<in> set (enrollments s). enrollment_overlaps_with cs (Enrollment c) e)"
  then show "can_enroll_in cs s c = (False, ''Schedule conflict with another course.'')"
    by (simp add: can_enroll_in_def py_any_course missing_prerequisite_None [THEN iffD2]
        schedule_conflict_iff)
next
  assume "c \<notin> course ` set (enrollments s) \<and> set (prerequisites (cs c)) \<subseteq> set (approved_courses s) \<and>
    total_credits cs s + credits (cs c) \<le> 24 \<and>
    \<not> (\<exists>e \<in> set (enrollments s). enrollment_overlaps_with cs (Enrollment c) e)"
  then show "can_enroll_in cs s c = (True, ''Enrollment valid.'')"
    by (simp add: can_enroll_in_def py_any_course missing_prerequisite_None [THEN iffD2]
        schedule_conflict_iff)
qed

theorem can_enroll_in_rule_order_witness:
  "3 \<in> course ` set (enrollments student_in_capstone) \<and>
   can_enroll_in example_courses student_in_capstone 3
     = (False, ''You are already enrolled in this course.'') \<and>
   3 \<notin> course ` set (enrollments student_in_prog1) \<and>
   prerequisites (example_courses 3) = [0] @ 1 # [2] \<and>
   set [0] \<subseteq> set (approved_courses student_in_prog1) \<and>
   1 \<notin> set (approved_courses student_in_prog1) \<and>
   2 \<notin> set (approved_courses student_in_prog1) \<and>
   can_enroll_in example_courses student_in_prog1 3 = (False, ''Missing prerequisite: INF201'') \<and>
   3 \<notin> course ` set (enrollments student_passed_all) \<and>
   set (prerequisites (example_courses 3)) \<subseteq> set (approved_courses student_passed_all) \<and>
   total_credits example_courses student_passed_all + credits (example_courses 3) > 24 \<and>
   (\<exists>e \<in> set (enrollments student_passed_all).
      enrollment_overlaps_with example_courses (Enrollment 3) e) \<and>
   can_enroll_in example_courses student_passed_all 3 = (False, ''Exceeds credit limit.'') \<and>
   2 \<notin> course ` set (enrollments student_in_prog1) \<and>
   set (prerequisites (example_courses 2)) \<subseteq> set (approved_courses student_in_prog1) \<and>
   total_credits example_courses student_in_prog1 + credits (example_courses 2) \<le> 24 \<and>
   (\<exists>e \<in> set (enrollments student_in_prog1).
      enrollment_overlaps_with example_courses (Enrollment 2) e) \<and>
   can_enroll_in example_courses student_in_prog1 2
     = (False, ''Schedule conflict with another course.'') \<and>
   1 \<notin> course ` set (enrollments student_in_prog1) \<and>
   set (prerequisites (example_courses 1)) \<subseteq> set (approved_courses student_in_prog1) \<and>
   total_credits example_courses student_in_prog1 + credits (example_courses 1) \<le> 24 \<and>
   \<not> (\<exists>e \<in> set (enrollments student_in_prog1).
      enrollment_overlaps_with example_courses (Enrollment 1) e) \<and>
   can_enroll_in example_courses student_in_prog1 1 = (True, ''Enrollment valid.'')"
  using can_enroll_in_rule_order [of 3 student_in_capstone example_courses "[]" 0 "[1, 2]"]
    can_enroll_in_rule_order [of 3 student_in_prog1 example_courses "[0]" 1 "[2]"]
    can_enroll_in_rule_order [of 3 student_passed_all example_courses "[]" 0 "[]"]
    can_enroll_in_rule_order [of 2 student_in_prog1 example_courses "[]" 0 "[]"]
    can_enroll_in_rule_order [of 1 student_in_prog1 example_courses "[]" 0 "[]"]
  by (simp add: example_defs main_courses_def prog1_def prog2_def mat1_def total_credits_def
      enrollment_overlaps_with_def schedule_overlaps_with_def time_le_def time_ge_def)

text \<open>
  Claim C5. When the already-enrolled and the prerequisite rules pass, \<open>can_enroll_in\<close>
  fails with the credit-limit reason if and only if \<open>total_credits() + course.credits > 24\<close>;
  the inequality is strict: where the resulting total is exactly 24 the credit-limit rule
  passes, and the result is that of the schedule rule.
\<close>

theorem credit_limit_rule:
  "c \<notin> course ` set (enrollments s) \<Longrightarrow>
   set (prerequisites (cs c)) \<subseteq> set (approved_courses s) \<Longrightarrow>
     ((can_enroll_in cs s c = (False, ''Exceeds credit limit.''))
        = (total_credits cs s + credits (cs c) > 24)) \<and>
     (total_credits cs s + credits (cs c) = 24 \<longrightarrow>
        can_enroll_in cs s c =
          (if schedule_conflict cs (Enrollment c) (enrollments s)
           then (False, ''Schedule conflict with another course.'')
           else (True, ''Enrollment valid.'')))"
  by (simp add: can_enroll_in_def py_any_course missing_prerequisite_None [THEN iffD2])

theorem credit_limit_rule_witness:
  "0 \<notin> course ` set (enrollments student_in_seminar) \<and>
   set (prerequisites (example_courses 0)) \<subseteq> set (approved_courses student_in_seminar) \<and>
   total_credits example_courses student_in_seminar + credits (example_courses 0) = 24 \<and>
   can_enroll_in example_courses student_in_seminar 0 = (True, ''Enrollment valid.'') \<and>
   2 \<notin> course ` set (enrollments student_in_seminar) \<and>
   set (prerequisites (example_courses 2)) \<subseteq> set (approved_courses student_in_seminar) \<and>
   total_credits example_courses student_in_seminar + credits (example_courses 2) > 24 \<and>
   can_enroll_in example_courses student_in_seminar 2 = (False, ''Exceeds credit limit.'')"
  using credit_limit_rule [of 0 student_in_seminar example_courses]
    credit_limit_rule [of 2 student_in_seminar example_courses]
  by (simp add: example_defs main_courses_def prog1_def mat1_def total_credits_def
      enrollment_overlaps_with_def)

section \<open>The credit limit\<close>

text \<open>
  Claim C2. For every sequence of \<open>enroll_in\<close> and \<open>pass_course\<close> calls starting from a
  freshly constructed Student, the sum of credits over the active enrollment list never
  exceeds 24 after any call completes (after every prefix of the sequence); enrollments are
  only added by successful \<open>enroll_in\<close> calls, each of which re-establishes the bound: a
  rejected \<open>enroll_in\<close> and \<open>pass_course\<close> leave the enrollment list as it was.
\<close>

theorem total_credits_bound:
  "(self w = Student n \<longrightarrow>
      (\<forall>k. total_credits (courses (run w (take k calls))) (self (run w (take k calls))) \<le> 24)) \<and>
   (fst (can_enroll_in (courses v) (self v) c) \<longrightarrow>
      total_credits (courses (enroll_in v c)) (self (enroll_in v c)) \<le> 24) \<and>
   (\<not> fst (can_enroll_in (courses v) (self v) c) \<longrightarrow>
      enrollments (self (enroll_in v c)) = enrollments (self v)) \<and>
   enrollments (self (pass_course v c)) = enrollments (self v)"
proof -
  have "total_credits (courses w) (self w) \<le> 24" if "self w = Student n"
    using that by (simp add: total_credits_def Student_def)
  then show ?thesis
    by (simp add: run_bound enroll_in_accepted_total enroll_in_rejected pass_course_enrollments)
qed

theorem total_credits_bound_witness:
  "self main_start = Student ''John Doe'' \<and>
   total_credits (courses (run main_start (take 5 main_calls)))
     (self (run main_start (take 5 main_calls))) \<le> 24 \<and>
   fst (can_enroll_in (courses main_start) (self main_start) 0) \<and>
   total_credits (courses (enroll_in main_start 0)) (self (enroll_in main_start 0)) \<le> 24 \<and>
   \<not> fst (can_enroll_in (courses main_start) (self main_start) 1) \<and>
   enrollments (self (enroll_in main_start 1)) = enrollments (self main_start)"
  using total_credits_bound [of main_start "''John Doe''" main_calls main_start 0]
    total_credits_bound [of main_start "''John Doe''" main_calls main_start 1]
  by (simp add: main_defs)

section \<open>The driver's scenario\<close>

text \<open>
  Claim C1. The driver's run: on a fresh Student, \<open>enroll_in\<close> of INF101 (4 credits, Monday
  08:00-10:00) is accepted, of INF201 (prerequisite INF101) is rejected for the missing
  prerequisite, of MAT101 (6 credits, Monday 09:30-11:30) is rejected for the schedule
  conflict. After \<open>pass_course\<close> of INF101 the claim expects the second \<open>enroll_in\<close> of
  MAT101 to be accepted; the theorem records what the code does there: INF101 is still an
  active enrollment, its slot still overlaps, and the call is rejected again for the
  schedule conflict.
\<close>

theorem main_scenario:
  "can_enroll_in main_courses (self main_start) 0 = (True, ''Enrollment valid.'') \<and>
   can_enroll_in main_courses (self (run main_start (take 1 main_calls))) 1
     = (False, ''Missing prerequisite: INF101'') \<and>
   can_enroll_in main_courses (self (run main_start (take 2 main_calls))) 2
     = (False, ''Schedule conflict with another course.'') \<and>
   can_enroll_in main_courses (self (run main_start (take 4 main_calls))) 2
     = (False, ''Schedule conflict with another course.'') \<and>
   self (run main_start main_calls)
     = \<lparr>name = ''John Doe'', approved_courses = [0], enrollments = [Enrollment 0]\<rparr> \<and>
   stdout (run main_start main_calls)
     = [check_mark @ '' John Doe enrolled in: INF101 - Programming I (4 credits)'',
        cross_mark @ '' Could not enroll in INF201 - Programming II (4 credits): Missing prerequisite: INF101'',
        cross_mark @ '' Could not enroll in MAT101 - Mathematics I (6 credits): Schedule conflict with another course.'',
        cross_mark @ '' Could not enroll in MAT101 - Mathematics I (6 credits): Schedule conflict with another course.'']"
  by (simp add: main_defs)

section \<open>What the operations change\<close>

lemma run_enrollments:
  "enrollments (self (run w ks)) = enrollments (self w) @ map Enrollment (successful_enrolls w ks)"
proof (induction w ks rule: successful_enrolls.induct)
  case (1 w)
  show ?case by simp
next
  case (2 w c ks)
  show ?case
  proof (cases "fst (can_enroll_in (courses w) (self w) c)")
    case True
    with 2 show ?thesis by (simp add: enroll_in_accepted)
  next
    case False
    with 2 show ?thesis by (simp add: enroll_in_rejected)
  qed
next
  case (3 w c ks)
  then show ?case by (simp add: pass_course_enrollments)
qed

text \<open>
  Claim C7. If \<open>can_enroll_in(course)\<close> fails, \<open>enroll_in(course)\<close> leaves the student
  (enrollments and approved courses) as it was; if it succeeds, \<open>enroll_in\<close> appends exactly
  one Enrollment of that course at the end of the enrollment list, so that after a sequence
  of calls the list holds the courses of the successful calls, in call order.
\<close>

theorem enroll_in_effect:
  "(\<not> fst (can_enroll_in (courses w) (self w) c) \<longrightarrow> self (enroll_in w c) = self w) \<and>
   (fst (can_enroll_in (courses w) (self w) c) \<longrightarrow>
      enrollments (self (enroll_in w c)) = enrollments (self w) @ [Enrollment c] \<and>
      approved_courses (self (enroll_in w c)) = approved_courses (self w)) \<and>
   enrollments (self (run w ks)) = enrollments (self w) @ map Enrollment (successful_enrolls w ks)"
  by (simp add: enroll_in_rejected enroll_in_accepted run_enrollments)

theorem enroll_in_effect_witness:
  "\<not> fst (can_enroll_in (courses main_start) (self main_start) 1) \<and>
   self (enroll_in main_start 1) = self main_start \<and>
   fst (can_enroll_in (courses main_start) (self main_start) 2) \<and>
   enrollments (self (enroll_in main_start 2)) = [Enrollment 2] \<and>
   enrollments (self (run main_start [Enroll_in 1, Enroll_in 2, Pass_course 0, Enroll_in 1, Enroll_in 2]))
     = [Enrollment 2, Enrollment 1]"
  using enroll_in_effect [of main_start 1 "[]"]
    enroll_in_effect [of main_start 2 "[Enroll_in 1, Enroll_in 2, Pass_course 0, Enroll_in 1, Enroll_in 2]"]
  by (simp add: main_defs)

lemma pass_course_twice: "pass_course (pass_course w c) c = pass_course w c"
  by (simp add: pass_course_def)

lemma pass_course_funpow:
  "((\<lambda>v. pass_course v c) ^^ Suc n) w = pass_course w c"
  by (induction n) (simp_all add: pass_course_twice)

text \<open>
  Claim C8. \<open>pass_course\<close> is idempotent: calling it \<open>n \<ge> 1\<close> times with one course gives
  the same approved courses (here: the same state) as calling it once; the first call
  appends the course only if it is not yet in the list, and a further call changes nothing.
\<close>

theorem pass_course_idempotent:
  "(0 < n \<longrightarrow> ((\<lambda>v. pass_course v c) ^^ n) w = pass_course w c) \<and>
   approved_courses (self (pass_course w c)) =
     (if c \<in> set (approved_courses (self w)) then approved_courses (self w)
      else approved_courses (self w) @ [c]) \<and>
   pass_course (pass_course w c) c = pass_course w c"
proof (intro conjI impI)
  assume "0 < n"
  then obtain m where "n = Suc m" by (cases n) auto
  then show "((\<lambda>v. pass_course v c) ^^ n) w = pass_course w c"
    by (simp only: pass_course_funpow)
next
  show "approved_courses (self (pass_course w c)) =
     (if c \<in> set (approved_courses (self w)) then approved_courses (self w)
      else approved_courses (self w) @ [c])"
    by (simp add: pass_course_def)
next
  show "pass_course (pass_course w c) c = pass_course w c"
    by (rule pass_course_twice)
qed

theorem pass_course_idempotent_witness:
  "(0::nat) < 3 \<and>
   approved_courses (self (((\<lambda>v. pass_course v 0) ^^ 3) main_start)) = [0] \<and>
   approved_courses (self (pass_course main_start 0)) = [0]"
  using pass_course_idempotent [of 3 0 main_start]
  by (simp add: main_defs)

text \<open>
  Claim C10. The frame of the two operations: \<open>enroll_in\<close> changes at most the enrollment
  list (and prints a line): the approved courses and the name stay, also when it succeeds;
  \<open>pass_course\<close> changes at most the approved courses: the enrollments and the name stay,
  and nothing is printed; neither changes a Course object, the argument or any other.
\<close>

theorem frame_conditions:
  "approved_courses (self (enroll_in w c)) = approved_courses (self w) \<and>
   name (self (enroll_in w c)) = name (self w) \<and>
   courses (enroll_in w c) = courses w \<and>
   enrollments (self (pass_course w c)) = enrollments (self w) \<and>
   name (self (pass_course w c)) = name (self w) \<and>
   stdout (pass_course w c) = stdout w \<and>
   courses (pass_course w c) = courses w"
  by (cases "can_enroll_in (courses w) (self w) c") (simp add: enroll_in_def pass_course_def)

end
